theory Spec2Isabelle
  imports Main "HOL-Library.Sublist"
begin

section \<open>Shared vocabulary of the two scripts\<close>

text \<open>
  The repository holds two scripts, \<^verbatim>\<open>download_gtex.py\<close> (the Fetcher) and
  \<^verbatim>\<open>etl_gtex.py\<close> (the Transformer). Both work on the local file system, which is
  modelled as a finite map from paths to file contents. A file's content is a list of
  bytes; HOL's \<open>char\<close> is an 8-bit byte, so contents are \<open>string\<close>s. Every exception
  the scripts can raise is a value of \<open>py_error\<close>, and a computation that may raise
  returns \<open>py_error + 'a\<close>, with \<open>Inl\<close> for the exception. \<open>NotModelled\<close> is not an
  exception of Python: it is the outcome of the delimited-text reader on a text
  outside the fragment of the reader that is modelled (see \<open>read_csv\<close>).
\<close>

type_synonym path = string
type_synonym bytes = string
type_synonym filesystem = "path \<rightharpoonup> bytes"

datatype py_error =
    FileNotFoundError
  | StopIteration
  | BadGzipFile
  | EmptyDataError
  | ParserError
  | ValueError
  | AttributeError
  | KeyError
  | URLError
  | ContentTooShortError
  | UnicodeDecodeError
  | NotModelled

definition then_do :: "'e + 'a \<Rightarrow> ('a \<Rightarrow> 'e + 'b) \<Rightarrow> 'e + 'b" where
  "then_do m f = (case m of Inl e \<Rightarrow> Inl e | Inr x \<Rightarrow> f x)"

text \<open>
  \<^verbatim>\<open>RAW = BASE / "data_raw"\<close> and \<^verbatim>\<open>PQ = BASE / "data_parquet"\<close> in both scripts, where
  \<^verbatim>\<open>BASE\<close> is the project root that both scripts compute by the same expression.
  Paths are written relative to that root. \<open>path_join\<close> is pathlib's \<^verbatim>\<open>/\<close>: an
  absolute right operand replaces the left one.
\<close>

definition path_join :: "path \<Rightarrow> string \<Rightarrow> path" where
  "path_join d name = (if take 1 name = ''/'' then name else d @ ''/'' @ name)"

definition RAW :: path where
  "RAW = ''data_raw''"

definition PQ :: path where
  "PQ = ''data_parquet''"

section \<open>The Fetcher: download_gtex.py\<close>

text \<open>
  \<^verbatim>\<open>FILES\<close> is a dict literal; Python iterates it in insertion order, so it is an
  association list of (tag, (local name, URL)).
\<close>

definition FILES :: "(string \<times> string \<times> string) list" where
  "FILES =
    [(''gct'',
      ''GTEx_gene_reads.gct.gz'',
      ''https://storage.googleapis.com/gtex_analysis_v8/rna_seq_data/'' @
      ''GTEx_Analysis_2017-06-05_v8_RNASeQCv1.1.9_gene_reads.gct.gz''),
     (''samp'',
      ''GTEx_sample_attrs.txt'',
      ''https://storage.googleapis.com/gtex_analysis_v8/annotations/'' @
      ''GTEx_Analysis_v8_Annotations_SampleAttributesDS.txt'')]"

text \<open>
  The remote side is a function from URLs to what a retrieval of that URL does:
  the connection fails before anything is written, the transfer breaks off after
  some bytes were written, or the whole content arrives.
\<close>

datatype response = Unreachable | Truncated bytes | Complete bytes

text \<open>The lines the Fetcher prints, one constructor per \<^verbatim>\<open>print\<close> call of \<^verbatim>\<open>fetch\<close>.\<close>

datatype fetch_message =
    Exists_skip string
  | Downloading string
  | Saved path

record world =
  files :: filesystem
  printed :: "fetch_message list"
  transfers :: nat

text \<open>
  \<^verbatim>\<open>urllib.request.urlretrieve(url, dest)\<close>: every call is one network transfer
  (counted in \<open>transfers\<close>). It opens the URL first, then the destination file, and
  raises after the copy when fewer bytes arrived than announced, leaving the partial
  file behind.
\<close>

definition urlretrieve ::
  "(string \<Rightarrow> response) \<Rightarrow> string \<Rightarrow> path \<Rightarrow> world \<Rightarrow> (py_error + unit) \<times> world" where
  "urlretrieve net url dest w =
     (let w1 = w\<lparr>transfers := Suc (transfers w)\<rparr> in
      case net url of
        Unreachable \<Rightarrow> (Inl URLError, w1)
      | Truncated b \<Rightarrow> (Inl ContentTooShortError, w1\<lparr>files := (files w1)(dest \<mapsto> b)\<rparr>)
      | Complete b \<Rightarrow> (Inr (), w1\<lparr>files := (files w1)(dest \<mapsto> b)\<rparr>))"

definition fetch ::
  "(string \<Rightarrow> response) \<Rightarrow> string \<Rightarrow> string \<Rightarrow> string \<Rightarrow> world \<Rightarrow> (py_error + path) \<times> world" where
  "fetch net tag fname url w =
     (let dest = path_join RAW fname in
      if files w dest \<noteq> None
      then (Inr dest, w\<lparr>printed := printed w @ [Exists_skip fname]\<rparr>)
      else
        (let w1 = w\<lparr>printed := printed w @ [Downloading tag]\<rparr> in
         case urlretrieve net url dest w1 of
           (Inl e, w2) \<Rightarrow> (Inl e, w2)
         | (Inr u, w2) \<Rightarrow> (Inr dest, w2\<lparr>printed := printed w2 @ [Saved dest]\<rparr>)))"

text \<open>
  The main block: \<^verbatim>\<open>for tag, (fname, url) in FILES.items(): fetch(tag, fname, url)\<close>.
  An exception of one \<^verbatim>\<open>fetch\<close> ends the loop.
\<close>

fun fetch_all ::
  "(string \<Rightarrow> response) \<Rightarrow> (string \<times> string \<times> string) list \<Rightarrow> world \<Rightarrow> (py_error + unit) \<times> world" where
  "fetch_all net [] w = (Inr (), w)"
| "fetch_all net ((tag, fname, url) # rest) w =
     (case fetch net tag fname url w of
        (Inl e, w1) \<Rightarrow> (Inl e, w1)
      | (Inr d, w1) \<Rightarrow> fetch_all net rest w1)"

definition download_main :: "(string \<Rightarrow> response) \<Rightarrow> world \<Rightarrow> (py_error + unit) \<times> world" where
  "download_main net w = fetch_all net FILES w"

text \<open>Two calls of \<^verbatim>\<open>fetch\<close> with the same arguments, one after the other.\<close>

definition fetch_twice ::
  "(string \<Rightarrow> response) \<Rightarrow> string \<Rightarrow> string \<Rightarrow> string \<Rightarrow> world \<Rightarrow> (py_error + path) \<times> world" where
  "fetch_twice net tag fname url w =
     (case fetch net tag fname url w of
        (Inl e, w1) \<Rightarrow> (Inl e, w1)
      | (Inr d, w1) \<Rightarrow> fetch net tag fname url w1)"

section \<open>The Transformer: etl_gtex.py\<close>

subsection \<open>smart_open\<close>

text \<open>
  \<^verbatim>\<open>smart_open\<close> reads the first two bytes of the file and returns either
  \<^verbatim>\<open>gzip.open(path, "rt")\<close> or \<^verbatim>\<open>open(path, "rt")\<close>. The two kinds of handle are the
  two constructors of \<open>handle\<close>; each holds the bytes of the file it was opened on.
  \<^verbatim>\<open>hdr.read(2)\<close> returns at most two bytes, fewer when the file is shorter.
\<close>

datatype handle = GzipText bytes | PlainText bytes

definition gzip_magic :: bytes where
  "gzip_magic = [CHR 0x1F, CHR 0x8B]"

definition smart_open :: "filesystem \<Rightarrow> path \<Rightarrow> py_error + handle" where
  "smart_open fs p =
     (case fs p of
        None \<Rightarrow> Inl FileNotFoundError
      | Some b \<Rightarrow>
          (let magic = take 2 b in
           if magic = gzip_magic then Inr (GzipText b) else Inr (PlainText b)))"

definition newline :: char where
  "newline = CHR 0x0A"

definition carriage_return :: char where
  "carriage_return = CHR 0x0D"

definition tab :: char where
  "tab = CHR 0x09"

definition quote :: char where
  "quote = CHR 0x22"

text \<open>
  Both kinds of handle are opened in text mode (\<^verbatim>\<open>"rt"\<close>) with the default arguments,
  so both read through the same text layer: the bytes are decoded, and every line
  ending (CR LF, or a lone CR) is translated to a newline. The codec is library
  code: it is the parameter \<open>decode\<close>, which returns \<open>None\<close> where Python raises
  \<^verbatim>\<open>UnicodeDecodeError\<close>. The translation of line endings is written out. A decoded
  text is a \<open>string\<close> like the bytes it came from; only its tabs, newlines,
  carriage returns and quote characters are ever inspected.
\<close>

fun universal_newlines :: "string \<Rightarrow> string" where
  "universal_newlines [] = []"
| "universal_newlines [c] = (if c = carriage_return then [newline] else [c])"
| "universal_newlines (c # d # cs) =
     (if c = carriage_return
      then (if d = newline then newline # universal_newlines cs
            else newline # universal_newlines (d # cs))
      else c # universal_newlines (d # cs))"

definition text_layer :: "(bytes \<Rightarrow> string option) \<Rightarrow> bytes \<Rightarrow> py_error + string" where
  "text_layer decode b =
     (case decode b of
        None \<Rightarrow> Inl UnicodeDecodeError
      | Some s \<Rightarrow> Inr (universal_newlines s))"

text \<open>
  Reading a handle to its end. The DEFLATE decoder of the gzip module is library
  code too: it is the parameter \<open>gunzip\<close>, which returns \<open>None\<close> where the module raises
  \<^verbatim>\<open>BadGzipFile\<close>.
\<close>

definition read_text ::
  "(bytes \<Rightarrow> bytes option) \<Rightarrow> (bytes \<Rightarrow> string option) \<Rightarrow> handle \<Rightarrow> py_error + string" where
  "read_text gunzip decode h =
     (case h of
        PlainText b \<Rightarrow> text_layer decode b
      | GzipText b \<Rightarrow>
          (case gunzip b of None \<Rightarrow> Inl BadGzipFile | Some t \<Rightarrow> text_layer decode t))"

definition open_and_read ::
  "(bytes \<Rightarrow> bytes option) \<Rightarrow> (bytes \<Rightarrow> string option) \<Rightarrow> filesystem \<Rightarrow> path
     \<Rightarrow> py_error + string" where
  "open_and_read gunzip decode fs p = then_do (smart_open fs p) (read_text gunzip decode)"

subsection \<open>Lines and fields of a text\<close>

text \<open>
  Iterating a text handle yields its lines, each with its terminating newline, the
  last one without when the text does not end in a newline.
\<close>

fun file_lines :: "string \<Rightarrow> string list" where
  "file_lines [] = []"
| "file_lines (c # cs) =
     (if c = newline then [c] # file_lines cs
      else (case file_lines cs of [] \<Rightarrow> [[c]] | l # ls \<Rightarrow> (c # l) # ls))"

text \<open>\<^verbatim>\<open>s.split(sep)\<close> for a one-character separator: never empty, \<^verbatim>\<open>"".split(sep) == [""]\<close>.\<close>

fun split_on :: "char \<Rightarrow> string \<Rightarrow> string list" where
  "split_on sep [] = [[]]"
| "split_on sep (c # cs) =
     (if c = sep then [] # split_on sep cs
      else (case split_on sep cs of [] \<Rightarrow> [[c]] | f # fs \<Rightarrow> (c # f) # fs))"

text \<open>\<^verbatim>\<open>s.rstrip("\n")\<close> removes every trailing newline.\<close>

definition rstrip_newline :: "string \<Rightarrow> string" where
  "rstrip_newline s = rev (dropWhile (\<lambda>c. c = newline) (rev s))"

subsection \<open>Data frames and the delimited-text reader\<close>

text \<open>
  A cell of a data frame is a string, a missing value, or a value that is not a
  string (a number or a boolean that the reader parsed from the text it holds).
  A column label is the label written in the file, or, for a column whose label
  already occurred further left in the header, a fresh label that the reader makes
  up from it (pandas appends a dot and a number, and chooses the number so that the
  new label differs from every label of the header).
\<close>

datatype cell = Str string | NaN | Parsed string

datatype label = Label string | Renamed string

record dataframe =
  columns :: "label list"
  rows :: "cell list list"

text \<open>
  The record lines the reader sees: the first \<open>skiprows\<close> lines of the file are
  dropped, line terminators are removed, and empty lines are skipped
  (\<^verbatim>\<open>skip_blank_lines=True\<close> is the default).
\<close>

definition strip_eol :: "string \<Rightarrow> string" where
  "strip_eol l = (if l \<noteq> [] \<and> last l = newline then butlast l else l)"

definition record_lines :: "string \<Rightarrow> nat \<Rightarrow> string list" where
  "record_lines text skiprows =
     filter (\<lambda>l. l \<noteq> []) (map strip_eol (drop skiprows (file_lines text)))"

text \<open>
  For every label of a header, whether it stands at its first occurrence
  (\<open>seen\<close> holds the labels to its left).
\<close>

fun first_mask :: "string list \<Rightarrow> string list \<Rightarrow> bool list" where
  "first_mask seen [] = []"
| "first_mask seen (n # ns) = (n \<notin> set seen) # first_mask (n # seen) ns"

definition frame_labels :: "string list \<Rightarrow> label list" where
  "frame_labels names =
     map (\<lambda>(first, n). if first then Label n else Renamed n) (zip (first_mask [] names) names)"

definition select :: "bool list \<Rightarrow> 'a list \<Rightarrow> 'a list" where
  "select chosen xs = map snd (filter fst (zip chosen xs))"

definition cell_at :: "cell list \<Rightarrow> nat \<Rightarrow> cell" where
  "cell_at r i = (if i < length r then r ! i else NaN)"

text \<open>The texts of the fields of column \<open>j\<close>, top to bottom, for each of the \<open>n\<close> columns.\<close>

definition column_texts :: "nat \<Rightarrow> string list list \<Rightarrow> string list list" where
  "column_texts n recs = map (\<lambda>j. map (\<lambda>r. r ! j) recs) [0..<n]"

definition rows_of :: "nat \<Rightarrow> cell list list \<Rightarrow> cell list list" where
  "rows_of n cols = map (\<lambda>i. map (\<lambda>col. cell_at col i) cols) [0..<n]"

text \<open>
  \<^verbatim>\<open>pd.read_csv(f, sep="\t", skiprows=k, usecols=us)\<close> is library code. It is modelled
  from the pandas documentation on the fragment of plain tables: a text without
  quote characters and carriage returns, whose header has no empty label and whose
  data lines all have as many fields as the header. On any other text the model
  answers \<open>NotModelled\<close> (there pandas unquotes fields, invents labels, or takes
  surplus leading fields as an index). On a plain table:
  \<^item> the first record line is the header; a text without one raises
    \<^verbatim>\<open>EmptyDataError\<close>;
  \<^item> a label that occurs again further right is renamed there, so a label written
    in the file names its leftmost column;
  \<^item> with \<open>usecols\<close>, every requested label must be a label of the header, otherwise
    the reader raises \<^verbatim>\<open>ValueError\<close>; the columns kept are those whose label is
    requested, in the order of the file ("element order is ignored");
  \<^item> the fields of each column kept are turned into cells by the reader's type
    inference and its recognition of missing-value markers. That conversion is the
    parameter \<open>convert\<close>, from the texts of a column to its cells.
\<close>

definition read_csv ::
  "(string list \<Rightarrow> cell list) \<Rightarrow> string \<Rightarrow> nat \<Rightarrow> cell list option \<Rightarrow> py_error + dataframe" where
  "read_csv convert text skiprows usecols =
     (if quote \<in> set text \<or> carriage_return \<in> set text then Inl NotModelled
      else
        (case record_lines text skiprows of
           [] \<Rightarrow> Inl EmptyDataError
         | h # body \<Rightarrow>
             (let names = split_on tab h;
                  recs = map (split_on tab) body in
              if list_ex (\<lambda>n. n = []) names
                 \<or> list_ex (\<lambda>r. length r \<noteq> length names) recs
              then Inl NotModelled
              else
                (case usecols of
                   None \<Rightarrow>
                     Inr \<lparr>columns = frame_labels names,
                           rows = rows_of (length recs)
                                    (map convert (column_texts (length names) recs))\<rparr>
                 | Some us \<Rightarrow>
                     if list_ex (\<lambda>u. u \<notin> set (map Str names)) us then Inl ValueError
                     else
                       (let chosen = map (\<lambda>(first, n). first \<and> Str n \<in> set us)
                                     (zip (first_mask [] names) names) in
                        Inr \<lparr>columns = select chosen (frame_labels names),
                              rows = rows_of (length recs)
                                       (map convert
                                          (select chosen (column_texts (length names) recs)))\<rparr>)))))"

text \<open>
  \<^verbatim>\<open>meta.SMTSD\<close> and \<^verbatim>\<open>meta.loc[mask, "SAMPID"]\<close>: the values of a column chosen by label.
  Attribute access raises \<^verbatim>\<open>AttributeError\<close> for a label that is no column, \<^verbatim>\<open>.loc\<close>
  raises \<^verbatim>\<open>KeyError\<close>.
\<close>

fun index_of :: "'a \<Rightarrow> 'a list \<Rightarrow> nat option" where
  "index_of x [] = None"
| "index_of x (y # ys) =
     (if x = y then Some 0 else (case index_of x ys of None \<Rightarrow> None | Some i \<Rightarrow> Some (Suc i)))"

definition column_values :: "py_error \<Rightarrow> dataframe \<Rightarrow> string \<Rightarrow> py_error + cell list" where
  "column_values err df name =
     (case index_of (Label name) (columns df) of
        None \<Rightarrow> Inl err
      | Some i \<Rightarrow> Inr (map (\<lambda>r. cell_at r i) (rows df)))"

text \<open>\<^verbatim>\<open>df.rename(columns={...}, inplace=True)\<close>: labels in the dict are replaced.\<close>

definition rename_label :: "(string \<times> string) list \<Rightarrow> label \<Rightarrow> label" where
  "rename_label m l =
     (case l of
        Label c \<Rightarrow> (case map_of m c of None \<Rightarrow> Label c | Some c' \<Rightarrow> Label c')
      | Renamed c \<Rightarrow> Renamed c)"

definition rename_columns :: "(string \<times> string) list \<Rightarrow> dataframe \<Rightarrow> dataframe" where
  "rename_columns m df = df\<lparr>columns := map (rename_label m) (columns df)\<rparr>"

subsection \<open>The script, top to bottom\<close>

definition gct_name :: string where
  "gct_name = ''GTEx_Analysis_2017-06-05_v8_RNASeQCv1.1.9_gene_reads.gct.gz''"

definition meta_name :: string where
  "meta_name = ''GTEx_Analysis_v8_Annotations_SampleAttributesDS.txt''"

definition gct_path :: path where
  "gct_path = path_join RAW gct_name"

definition meta_path :: path where
  "meta_path = path_join RAW meta_name"

definition parquet_out :: path where
  "parquet_out = path_join PQ ''gtex_liver.parquet''"

text \<open>
  Line 37: \<^verbatim>\<open>meta = pd.read_csv(meta_path, sep="\t", low_memory=False)\<close>. pandas opens
  the path itself (not through \<^verbatim>\<open>smart_open\<close>); the name does not end in a
  compression suffix, so the bytes are decoded and parsed as they are. The reader
  ends a line at CR LF, at a lone CR and at a newline, as the text layer does.
\<close>

definition read_csv_file ::
  "(bytes \<Rightarrow> string option) \<Rightarrow> (string list \<Rightarrow> cell list) \<Rightarrow> filesystem \<Rightarrow> path
     \<Rightarrow> py_error + dataframe" where
  "read_csv_file decode convert fs p =
     (case fs p of
        None \<Rightarrow> Inl FileNotFoundError
      | Some b \<Rightarrow> then_do (text_layer decode b) (\<lambda>text. read_csv convert text 0 None))"

text \<open>Line 38: \<^verbatim>\<open>liver_ids = meta.loc[meta.SMTSD == "Liver", "SAMPID"]\<close>.\<close>

definition select_liver_ids :: "dataframe \<Rightarrow> py_error + cell list" where
  "select_liver_ids meta =
     then_do (column_values AttributeError meta ''SMTSD'') (\<lambda>tissue.
     then_do (column_values KeyError meta ''SAMPID'') (\<lambda>sampid.
       Inr (map snd (filter (\<lambda>(t, s). t = Str ''Liver'') (zip tissue sampid)))))"

text \<open>
  Lines 42-44: \<^verbatim>\<open>next(fhdr); next(fhdr)\<close> raise \<^verbatim>\<open>StopIteration\<close> at the end of the
  file; \<^verbatim>\<open>fhdr.readline()\<close> returns the empty string there.
\<close>

definition read_col_names :: "string \<Rightarrow> py_error + string list" where
  "read_col_names text =
     (case file_lines text of
        [] \<Rightarrow> Inl StopIteration
      | [l1] \<Rightarrow> Inl StopIteration
      | l1 # l2 # rest \<Rightarrow>
          Inr (split_on tab (rstrip_newline (case rest of [] \<Rightarrow> [] | l3 # later \<Rightarrow> l3))))"

text \<open>Line 46: \<^verbatim>\<open>gct_samples = set(col_names[2:])\<close>.\<close>

definition gct_samples_of :: "string list \<Rightarrow> cell set" where
  "gct_samples_of col_names = set (map Str (drop 2 col_names))"

text \<open>Line 47: \<^verbatim>\<open>keep_ids = [sid for sid in liver_ids if sid in gct_samples]\<close>.\<close>

fun keep_ids :: "cell list \<Rightarrow> cell set \<Rightarrow> cell list" where
  "keep_ids [] gct_samples = []"
| "keep_ids (sid # rest) gct_samples =
     (if sid \<in> gct_samples then sid # keep_ids rest gct_samples
      else keep_ids rest gct_samples)"

text \<open>The lines the Transformer prints (lines 39, 48 and 61).\<close>

datatype etl_message =
    Liver_samples nat
  | Requested_found nat nat
  | Parquet_saved path

text \<open>
  What a run that reaches its end has done: the lines printed, the table written
  to \<open>out_file\<close>, and the parameters, metrics and artifact logged to MLflow.
\<close>

record etl_run =
  messages :: "etl_message list"
  out_file :: path
  table :: dataframe
  params :: "(string \<times> string) list"
  metrics :: "(string \<times> nat) list"
  artifact :: path

text \<open>Lines 37-38 together: the candidate filter list of a run.\<close>

definition load_liver_ids ::
  "(bytes \<Rightarrow> string option) \<Rightarrow> (string list \<Rightarrow> cell list) \<Rightarrow> filesystem
     \<Rightarrow> py_error + cell list" where
  "load_liver_ids decode convert fs =
     then_do (read_csv_file decode convert fs meta_path) select_liver_ids"

text \<open>
  The script reads the matrix twice, each time through a fresh \<^verbatim>\<open>smart_open\<close>.
  The first pass (lines 42-44) stops after three lines; here both passes decode the
  whole file, so a file that is damaged after its third line fails in the first
  pass rather than in the second.
\<close>

definition discover_col_names ::
  "(bytes \<Rightarrow> bytes option) \<Rightarrow> (bytes \<Rightarrow> string option) \<Rightarrow> filesystem
     \<Rightarrow> py_error + string list" where
  "discover_col_names gunzip decode fs =
     then_do (open_and_read gunzip decode fs gct_path) read_col_names"

text \<open>Lines 51-56: the second pass, \<^verbatim>\<open>usecols=["Name", "Description", *keep_ids]\<close>.\<close>

definition load_matrix ::
  "(bytes \<Rightarrow> bytes option) \<Rightarrow> (bytes \<Rightarrow> string option) \<Rightarrow> (string list \<Rightarrow> cell list)
     \<Rightarrow> filesystem \<Rightarrow> cell list \<Rightarrow> py_error + dataframe" where
  "load_matrix gunzip decode convert fs keep =
     then_do (open_and_read gunzip decode fs gct_path) (\<lambda>text.
       read_csv convert text 2 (Some ([Str ''Name'', Str ''Description''] @ keep)))"

text \<open>
  Lines 58-71. \<^verbatim>\<open>pa.Table.from_pandas(df)\<close> raises \<^verbatim>\<open>ValueError\<close> for a frame with two
  columns of the same label. Apart from that check, writing the Parquet file and
  logging to MLflow are effects on external collaborators that are taken to succeed:
  the run is modelled up to the table handed to the writer and the values logged.
\<close>

definition etl ::
  "(bytes \<Rightarrow> bytes option) \<Rightarrow> (bytes \<Rightarrow> string option) \<Rightarrow> (string list \<Rightarrow> cell list)
     \<Rightarrow> filesystem \<Rightarrow> py_error + etl_run" where
  "etl gunzip decode convert fs =
     then_do (load_liver_ids decode convert fs) (\<lambda>liver_ids.
     then_do (discover_col_names gunzip decode fs) (\<lambda>col_names.
       (let gct_samples = gct_samples_of col_names;
            keep = keep_ids liver_ids gct_samples in
        then_do (load_matrix gunzip decode convert fs keep) (\<lambda>df.
          (let df' = rename_columns
                       [(''Name'', ''gene_id''), (''Description'', ''gene_symbol'')] df in
           if \<not> distinct (columns df') then Inl ValueError
           else
           Inr \<lparr>messages =
                   [Liver_samples (length liver_ids),
                    Requested_found (length liver_ids) (length keep),
                    Parquet_saved parquet_out],
                 out_file = parquet_out,
                 table = df',
                 params = [(''gct_file'', gct_name), (''meta_file'', meta_name)],
                 metrics = [(''liver_samples'', length liver_ids),
                            (''genes'', length (rows df'))],
                 artifact = parquet_out\<rparr>)))))"

text \<open>The value of \<^verbatim>\<open>keep_ids\<close> after line 47 of a run: the effective filter set.\<close>

definition etl_keep_ids ::
  "(bytes \<Rightarrow> bytes option) \<Rightarrow> (bytes \<Rightarrow> string option) \<Rightarrow> (string list \<Rightarrow> cell list)
     \<Rightarrow> filesystem \<Rightarrow> py_error + cell list" where
  "etl_keep_ids gunzip decode convert fs =
     then_do (load_liver_ids decode convert fs) (\<lambda>liver_ids.
     then_do (discover_col_names gunzip decode fs) (\<lambda>col_names.
       Inr (keep_ids liver_ids (gct_samples_of col_names))))"

text \<open>
  Three projections of a run, used to state concrete facts: the labels of the
  written table, its sample labels (every label after the first two), and its row
  keys (the first two cells of every row).
\<close>

definition etl_columns ::
  "(bytes \<Rightarrow> bytes option) \<Rightarrow> (bytes \<Rightarrow> string option) \<Rightarrow> (string list \<Rightarrow> cell list)
     \<Rightarrow> filesystem \<Rightarrow> py_error + label list" where
  "etl_columns gunzip decode convert fs =
     then_do (etl gunzip decode convert fs) (\<lambda>r. Inr (columns (table r)))"

definition etl_sample_columns ::
  "(bytes \<Rightarrow> bytes option) \<Rightarrow> (bytes \<Rightarrow> string option) \<Rightarrow> (string list \<Rightarrow> cell list)
     \<Rightarrow> filesystem \<Rightarrow> py_error + label list" where
  "etl_sample_columns gunzip decode convert fs =
     then_do (etl gunzip decode convert fs) (\<lambda>r. Inr (drop 2 (columns (table r))))"

definition etl_row_keys ::
  "(bytes \<Rightarrow> bytes option) \<Rightarrow> (bytes \<Rightarrow> string option) \<Rightarrow> (string list \<Rightarrow> cell list)
     \<Rightarrow> filesystem \<Rightarrow> py_error + cell list list" where
  "etl_row_keys gunzip decode convert fs =
     then_do (etl gunzip decode convert fs) (\<lambda>r. Inr (map (take 2) (rows (table r))))"

subsection \<open>The format of a matrix file\<close>

text \<open>
  The GCT format as the specification describes it: lines 1 and 2 carry metadata,
  line 3 is the column header, every later non-empty line is one gene, and the row
  key of a gene is its first two fields. A matrix text is well formed when it is
  plain tab-separated text: no quote character, no empty label in the header, and
  as many fields in every gene line as there are labels.
\<close>

definition gene_records :: "string \<Rightarrow> string list list" where
  "gene_records text =
     map (split_on tab) (filter (\<lambda>l. l \<noteq> []) (map strip_eol (drop 3 (file_lines text))))"

definition well_formed_gct :: "string \<Rightarrow> string list \<Rightarrow> bool" where
  "well_formed_gct text col_names =
     (quote \<notin> set text \<and> carriage_return \<notin> set text
      \<and> [] \<notin> set col_names
      \<and> list_all (\<lambda>r. length r = length col_names) (gene_records text))"

text \<open>
  The labels of a header that name a column of their own: each label at its leftmost
  occurrence, left to right (\<open>seen\<close> holds the labels further left). The sample
  labels of a header are those after its first two labels.
\<close>

fun firsts :: "string list \<Rightarrow> string list \<Rightarrow> string list" where
  "firsts seen [] = []"
| "firsts seen (n # ns) =
     (if n \<in> set seen then firsts (n # seen) ns else n # firsts (n # seen) ns)"

definition sample_labels :: "string list \<Rightarrow> string list" where
  "sample_labels col_names = firsts (rev (take 2 col_names)) (drop 2 col_names)"

text \<open>The cells that the reader makes of field \<open>j\<close> of the gene lines.\<close>

definition key_cells :: "(string list \<Rightarrow> cell list) \<Rightarrow> string \<Rightarrow> nat \<Rightarrow> cell list" where
  "key_cells convert text j = convert (map (\<lambda>r. r ! j) (gene_records text))"

subsection \<open>Building example files\<close>

fun join_tab :: "string list \<Rightarrow> string" where
  "join_tab [] = []"
| "join_tab [f] = f"
| "join_tab (f # g # fs) = f @ [tab] @ join_tab (g # fs)"

definition tsv :: "string list list \<Rightarrow> string" where
  "tsv ls = concat (map (\<lambda>l. join_tab l @ [newline]) ls)"

text \<open>
  Stand-ins for the three library parameters, for examples only. The decoder
  accepts a file that starts with the gzip magic bytes and returns what follows
  them. The codec takes every byte as one character. The conversion reads a column
  of digit strings as numbers, and in any other column the fields \<^verbatim>\<open>NA\<close> and the
  empty field as missing values and every other field as a string.
\<close>

definition unwrap_example :: "bytes \<Rightarrow> bytes option" where
  "unwrap_example b = (if take 2 b = gzip_magic then Some (drop 2 b) else None)"

definition bytes_example :: "bytes \<Rightarrow> string option" where
  "bytes_example b = Some b"

definition digit_text :: "string \<Rightarrow> bool" where
  "digit_text f = (f \<noteq> [] \<and> list_all (\<lambda>c. c \<in> set ''0123456789'') f)"

definition convert_example :: "string list \<Rightarrow> cell list" where
  "convert_example col =
     (if col \<noteq> [] \<and> list_all digit_text col then map Parsed col
      else map (\<lambda>f. if f = ''NA'' \<or> f = [] then NaN else Str f) col)"

text \<open>
  The scenario of the specification: five metadata rows, of which the samples A, B
  and C are liver samples, and a matrix whose header names the samples B, C and D.
\<close>

definition example_meta :: string where
  "example_meta =
     tsv [[''SAMPID'', ''SMTSD''], [''A'', ''Liver''], [''B'', ''Liver''],
          [''C'', ''Liver''], [''X'', ''Lung''], [''Y'', ''Lung'']]"

definition example_gct :: string where
  "example_gct =
     tsv [[''#1.2''], [''2'', ''3''], [''Name'', ''Description'', ''B'', ''C'', ''D''],
          [''G1'', ''g1'', ''1'', ''2'', ''3''], [''G2'', ''g2'', ''4'', ''5'', ''6'']]"

definition example_fs :: filesystem where
  "example_fs = [meta_path \<mapsto> example_meta, gct_path \<mapsto> example_gct]"

text \<open>The same matrix with metadata that lists the liver samples as C, then B.\<close>

definition reordered_meta :: string where
  "reordered_meta = tsv [[''SAMPID'', ''SMTSD''], [''C'', ''Liver''], [''B'', ''Liver'']]"

definition reordered_fs :: filesystem where
  "reordered_fs = [meta_path \<mapsto> reordered_meta, gct_path \<mapsto> example_gct]"

text \<open>A matrix whose descriptive columns are labelled id and symbol.\<close>

definition relabelled_gct :: string where
  "relabelled_gct =
     tsv [[''#1.2''], [''2'', ''3''], [''id'', ''symbol'', ''B'', ''C'', ''D''],
          [''G1'', ''g1'', ''1'', ''2'', ''3''], [''G2'', ''g2'', ''4'', ''5'', ''6'']]"

definition relabelled_fs :: filesystem where
  "relabelled_fs = [meta_path \<mapsto> example_meta, gct_path \<mapsto> relabelled_gct]"

text \<open>Metadata without a liver sample, with the example matrix and with the relabelled one.\<close>

definition no_liver_meta :: string where
  "no_liver_meta = tsv [[''SAMPID'', ''SMTSD''], [''X'', ''Lung''], [''Y'', ''Lung'']]"

definition no_liver_fs :: filesystem where
  "no_liver_fs = [meta_path \<mapsto> no_liver_meta, gct_path \<mapsto> example_gct]"

definition no_liver_relabelled_fs :: filesystem where
  "no_liver_relabelled_fs = [meta_path \<mapsto> no_liver_meta, gct_path \<mapsto> relabelled_gct]"

text \<open>A matrix in which the symbol of the first gene is the text NA.\<close>

definition na_symbol_gct :: string where
  "na_symbol_gct =
     tsv [[''#1.2''], [''2'', ''3''], [''Name'', ''Description'', ''B'', ''C'', ''D''],
          [''G1'', ''NA'', ''1'', ''2'', ''3''], [''G2'', ''g2'', ''4'', ''5'', ''6'']]"

definition na_symbol_fs :: filesystem where
  "na_symbol_fs = [meta_path \<mapsto> example_meta, gct_path \<mapsto> na_symbol_gct]"

text \<open>An empty raw-data directory, and a remote side on which every transfer succeeds.\<close>

definition fresh_world :: world where
  "fresh_world = \<lparr>files = Map.empty, printed = [], transfers = 0\<rparr>"

definition all_complete :: "string \<Rightarrow> response" where
  "all_complete url = Complete ''payload''"


section \<open>Auxiliary facts\<close>


section \<open>Auxiliary facts\<close>

lemma split_on_not_Nil: "split_on sep s \<noteq> []"
  by (induction s) (auto split: list.splits)

lemma split_on_eq_blank: "split_on sep s = [[]] \<longleftrightarrow> s = []"
proof (cases s)
  case Nil
  then show ?thesis by simp
next
  case (Cons c cs)
  then show ?thesis
    using split_on_not_Nil [of sep cs] by (auto split: list.splits)
qed

lemma file_lines_shape:
  "l \<in> set (file_lines t) \<Longrightarrow> l \<noteq> [] \<and> newline \<notin> set (butlast l)"
proof (induction t arbitrary: l)
  case Nil
  then show ?case by simp
next
  case (Cons c cs)
  show ?case
  proof (cases "c = newline")
    case True
    with Cons show ?thesis by auto
  next
    case False
    show ?thesis
    proof (cases "file_lines cs")
      case Nil
      with False Cons.prems show ?thesis by simp
    next
      case (Cons k ks)
      have k: "k \<noteq> [] \<and> newline \<notin> set (butlast k)"
        using Cons.IH [of k] Cons by simp
      from Cons False Cons.prems have "l = c # k \<or> l \<in> set ks" by simp
      then show ?thesis
      proof
        assume "l = c # k"
        with k False show ?thesis by simp
      next
        assume "l \<in> set ks"
        with Cons Cons.IH [of l] show ?thesis by simp
      qed
    qed
  qed
qed

lemma dropWhile_newline_id:
  "newline \<notin> set xs \<Longrightarrow> dropWhile (\<lambda>c. c = newline) xs = xs"
  by (cases xs) auto

lemma rstrip_is_strip_eol:
  assumes "newline \<notin> set (butlast l)"
  shows "rstrip_newline l = strip_eol l"
proof (cases l rule: rev_cases)
  case Nil
  then show ?thesis by (simp add: rstrip_newline_def strip_eol_def)
next
  case (snoc ys y)
  with assms have "newline \<notin> set (rev ys)" by simp
  then have dw: "dropWhile (\<lambda>c. c = newline) (rev ys) = rev ys"
    by (rule dropWhile_newline_id)
  show ?thesis
    using snoc dw by (simp add: rstrip_newline_def strip_eol_def)
qed

lemma then_do_Inr [simp]: "then_do (Inr x) f = f x"
  by (simp add: then_do_def)

lemma then_do_Inl [simp]: "then_do (Inl e) f = Inl e"
  by (simp add: then_do_def)

lemma passes_agree:
  assumes "read_col_names text = Inr cols" and "cols \<noteq> [[]]"
  shows "\<exists>h. record_lines text 2 =
               h # filter (\<lambda>l. l \<noteq> []) (map strip_eol (drop 3 (file_lines text)))
             \<and> split_on tab h = cols"
proof -
  from assms(1) obtain l1 l2 rest where fl: "file_lines text = l1 # l2 # rest"
    and c: "cols = split_on tab (rstrip_newline (case rest of [] \<Rightarrow> [] | l3 # later \<Rightarrow> l3))"
    by (auto simp add: read_col_names_def split: list.splits)
  show ?thesis
  proof (cases rest)
    case Nil
    with c assms(2) show ?thesis by (simp add: rstrip_newline_def)
  next
    case (Cons l3 later)
    have "l3 \<in> set (file_lines text)" using fl Cons by simp
    then have "newline \<notin> set (butlast l3)" using file_lines_shape by blast
    then have eq: "rstrip_newline l3 = strip_eol l3" by (rule rstrip_is_strip_eol)
    with c Cons have c': "cols = split_on tab (strip_eol l3)" by simp
    with assms(2) have ne: "strip_eol l3 \<noteq> []" by auto
    have "record_lines text 2 =
            strip_eol l3 # filter (\<lambda>l. l \<noteq> []) (map strip_eol later)"
      using fl Cons ne by (simp add: record_lines_def)
    moreover have "drop 3 (file_lines text) = later" using fl Cons by simp
    ultimately show ?thesis using c' by simp
  qed
qed

lemma keep_ids_filter: "keep_ids liver_ids gs = filter (\<lambda>sid. sid \<in> gs) liver_ids"
  by (induction liver_ids) simp_all

lemma keep_ids_in_header:
  "set (keep_ids liver_ids (gct_samples_of cols)) \<subseteq> set (map Str cols)"
proof -
  have "set (drop 2 cols) \<subseteq> set cols" by (rule set_drop_subset)
  then show ?thesis by (auto simp add: keep_ids_filter gct_samples_of_def)
qed

lemma select_Nil [simp]: "select [] xs = []"
  by (simp add: select_def)

lemma select_Cons [simp]:
  "select (b # bs) (x # xs) = (if b then x # select bs xs else select bs xs)"
  by (simp add: select_def)

lemma firsts_set: "set (firsts seen ns) = set ns - set seen"
proof (induction ns arbitrary: seen)
  case Nil
  then show ?case by simp
next
  case (Cons n ns)
  show ?case using Cons.IH [of "n # seen"] by auto
qed

lemma firsts_avoid_seen: "set (firsts seen ns) \<inter> set seen = {}"
  by (auto simp add: firsts_set)

lemma firsts_distinct: "distinct (firsts seen ns)"
proof (induction ns arbitrary: seen)
  case Nil
  then show ?case by simp
next
  case (Cons n ns)
  have "n \<notin> set (firsts (n # seen) ns)"
    using firsts_avoid_seen [of "n # seen" ns] by auto
  with Cons.IH [of "n # seen"] show ?case by simp
qed

lemma select_firsts:
  "select (map (\<lambda>(first, n). first \<and> P n) (zip (first_mask seen ns) ns))
          (map (\<lambda>(first, n). if first then Label n else Renamed n) (zip (first_mask seen ns) ns))
     = map Label (filter P (firsts seen ns))"
  by (induction ns arbitrary: seen) auto

lemma rows_of_length [simp]: "length (rows_of n cols) = n"
  by (simp add: rows_of_def)

lemma rows_of_keys:
  "map (take 2) (rows_of n (c0 # c1 # cs)) = map (\<lambda>i. [cell_at c0 i, cell_at c1 i]) [0..<n]"
  by (simp add: rows_of_def)

lemma upt_two: "[0..<Suc (Suc k)] = 0 # Suc 0 # [Suc (Suc 0)..<Suc (Suc k)]"
proof -
  have a: "[0..<Suc (Suc k)] = 0 # [Suc 0..<Suc (Suc k)]"
    by (rule upt_conv_Cons) simp
  have b: "[Suc 0..<Suc (Suc k)] = Suc 0 # [Suc (Suc 0)..<Suc (Suc k)]"
    by (rule upt_conv_Cons) simp
  from a b show ?thesis by simp
qed

lemma column_texts_two:
  "column_texts (Suc (Suc k)) recs =
     map (\<lambda>r. r ! 0) recs # map (\<lambda>r. r ! Suc 0) recs #
       map (\<lambda>j. map (\<lambda>r. r ! j) recs) [Suc (Suc 0)..<Suc (Suc k)]"
  unfolding column_texts_def upt_two by simp

lemma header_shape:
  assumes "take 2 cols = [''Name'', ''Description'']"
  obtains rest where "cols = ''Name'' # ''Description'' # rest"
proof (cases cols)
  case Nil
  with assms show ?thesis by simp
next
  case (Cons a as)
  with assms show ?thesis using that by (cases as) auto
qed

lemma read_csv_plain:
  assumes q: "quote \<notin> set text" and cr: "carriage_return \<notin> set text"
      and rl: "record_lines text k = h # body"
      and ne: "[] \<notin> set (split_on tab h)"
      and re: "list_all (\<lambda>r. length r = length (split_on tab h)) (map (split_on tab) body)"
      and us: "set us \<subseteq> set (map Str (split_on tab h))"
  shows "read_csv convert text k (Some us) =
           Inr \<lparr>columns =
                   select (map (\<lambda>(first, n). first \<and> Str n \<in> set us)
                             (zip (first_mask [] (split_on tab h)) (split_on tab h)))
                     (frame_labels (split_on tab h)),
                 rows =
                   rows_of (length body)
                     (map convert
                        (select (map (\<lambda>(first, n). first \<and> Str n \<in> set us)
                                   (zip (first_mask [] (split_on tab h)) (split_on tab h)))
                           (column_texts (length (split_on tab h)) (map (split_on tab) body))))\<rparr>"
proof -
  have a: "\<not> list_ex (\<lambda>n. n = []) (split_on tab h)"
    using ne by (auto simp add: list_ex_iff)
  have b: "\<not> list_ex (\<lambda>r. length r \<noteq> length (split_on tab h)) (map (split_on tab) body)"
    using re by (auto simp add: list_ex_iff list_all_iff)
  have c: "\<not> list_ex (\<lambda>u. u \<notin> set (map Str (split_on tab h))) us"
    using us by (auto simp add: list_ex_iff)
  show ?thesis
    unfolding read_csv_def using q cr rl a b c by (simp add: Let_def)
qed

lemma chosen_labels:
  "select (map (\<lambda>(first, n). first \<and> Str n \<in> set ([Str ''Name'', Str ''Description''] @ keep))
             (zip (first_mask [] (''Name'' # ''Description'' # rest))
                  (''Name'' # ''Description'' # rest)))
          (frame_labels (''Name'' # ''Description'' # rest))
   = Label ''Name'' # Label ''Description'' #
       map Label (filter (\<lambda>c. Str c \<in> set keep) (firsts [''Description'', ''Name''] rest))"
proof -
  let ?P = "\<lambda>n. Str n \<in> set ([Str ''Name'', Str ''Description''] @ keep)"
  have f: "filter ?P (firsts [''Description'', ''Name''] rest)
           = filter (\<lambda>c. Str c \<in> set keep) (firsts [''Description'', ''Name''] rest)"
    using firsts_avoid_seen [of "[''Description'', ''Name'']" rest]
    by (intro filter_cong) auto
  have s: "select (map (\<lambda>(first, n). first \<and> ?P n)
                     (zip (first_mask [''Description'', ''Name''] rest) rest))
                  (map (\<lambda>(first, n). if first then Label n else Renamed n)
                     (zip (first_mask [''Description'', ''Name''] rest) rest))
           = map Label (filter ?P (firsts [''Description'', ''Name''] rest))"
    by (rule select_firsts)
  show ?thesis
    unfolding frame_labels_def using s f by simp
qed

lemma chosen_columns:
  "\<exists>others.
     select (map (\<lambda>(first, n). first \<and> Str n \<in> set ([Str ''Name'', Str ''Description''] @ keep))
               (zip (first_mask [] (''Name'' # ''Description'' # rest))
                    (''Name'' # ''Description'' # rest)))
            (column_texts (length (''Name'' # ''Description'' # rest)) recs)
     = map (\<lambda>r. r ! 0) recs # map (\<lambda>r. r ! Suc 0) recs # others"
proof -
  have "length (''Name'' # ''Description'' # rest) = Suc (Suc (length rest))" by simp
  then show ?thesis
    unfolding column_texts_two by (simp add: column_texts_two)
qed

lemma load_matrix_ok:
  assumes rd: "open_and_read gunzip decode fs gct_path = Inr text"
      and cn: "read_col_names text = Inr cols"
      and tk: "take 2 cols = [''Name'', ''Description'']"
      and wf: "well_formed_gct text cols"
      and ks: "set keep \<subseteq> set (map Str cols)"
  shows "\<exists>others. load_matrix gunzip decode convert fs keep =
           Inr \<lparr>columns = Label ''Name'' # Label ''Description'' #
                            map Label (filter (\<lambda>c. Str c \<in> set keep) (sample_labels cols)),
                 rows = rows_of (length (gene_records text))
                          (key_cells convert text 0 # key_cells convert text (Suc 0) # others)\<rparr>"
proof -
  from tk obtain rest where c: "cols = ''Name'' # ''Description'' # rest"
    by (rule header_shape)
  then have "cols \<noteq> [[]]" by simp
  with cn obtain h where h: "record_lines text 2 =
      h # filter (\<lambda>l. l \<noteq> []) (map strip_eol (drop 3 (file_lines text)))"
    and hc: "split_on tab h = cols"
    using passes_agree by blast
  let ?body = "filter (\<lambda>l. l \<noteq> []) (map strip_eol (drop 3 (file_lines text)))"
  let ?us = "[Str ''Name'', Str ''Description''] @ keep"
  have gr: "map (split_on tab) ?body = gene_records text"
    by (simp add: gene_records_def)
  from wf have q: "quote \<notin> set text" and cr: "carriage_return \<notin> set text"
    and ne: "[] \<notin> set (split_on tab h)"
    and re: "list_all (\<lambda>r. length r = length (split_on tab h)) (map (split_on tab) ?body)"
    unfolding well_formed_gct_def hc gr by simp_all
  have us: "set ?us \<subseteq> set (map Str (split_on tab h))"
    using ks c hc by auto
  have sl: "sample_labels cols = firsts [''Description'', ''Name''] rest"
    using c by (simp add: sample_labels_def)
  obtain others where ot:
    "select (map (\<lambda>(first, n). first \<and> Str n \<in> set ?us)
               (zip (first_mask [] (''Name'' # ''Description'' # rest))
                    (''Name'' # ''Description'' # rest)))
            (column_texts (length (''Name'' # ''Description'' # rest)) (gene_records text))
     = map (\<lambda>r. r ! 0) (gene_records text) # map (\<lambda>r. r ! Suc 0) (gene_records text) # others"
    using chosen_columns [of keep rest "gene_records text"] by blast
  have "read_csv convert text 2 (Some ?us) =
           Inr \<lparr>columns = Label ''Name'' # Label ''Description'' #
                            map Label (filter (\<lambda>c. Str c \<in> set keep) (sample_labels cols)),
                 rows = rows_of (length (gene_records text))
                          (key_cells convert text 0 # key_cells convert text (Suc 0)
                             # map convert others)\<rparr>"
    unfolding read_csv_plain [OF q cr h ne re us] hc gr c chosen_labels ot sl [unfolded c]
    by (simp add: key_cells_def gene_records_def)
  with rd show ?thesis
    by (auto simp add: load_matrix_def)
qed

lemma etl_ok:
  assumes lv: "load_liver_ids decode convert fs = Inr liver_ids"
      and rd: "open_and_read gunzip decode fs gct_path = Inr text"
      and cn: "read_col_names text = Inr cols"
      and tk: "take 2 cols = [''Name'', ''Description'']"
      and wf: "well_formed_gct text cols"
      and fr: "Str ''gene_id'' \<notin> set (keep_ids liver_ids (gct_samples_of cols))"
              "Str ''gene_symbol'' \<notin> set (keep_ids liver_ids (gct_samples_of cols))"
  shows "\<exists>r others. etl gunzip decode convert fs = Inr r
           \<and> columns (table r) = Label ''gene_id'' # Label ''gene_symbol'' #
                map Label (filter (\<lambda>c. Str c \<in> set (keep_ids liver_ids (gct_samples_of cols)))
                             (sample_labels cols))
           \<and> rows (table r) = rows_of (length (gene_records text))
                (key_cells convert text 0 # key_cells convert text (Suc 0) # others)"
proof -
  let ?keep = "keep_ids liver_ids (gct_samples_of cols)"
  from load_matrix_ok [OF rd cn tk wf keep_ids_in_header [of liver_ids cols]]
  obtain others where lm: "load_matrix gunzip decode convert fs ?keep =
           Inr \<lparr>columns = Label ''Name'' # Label ''Description'' #
                            map Label (filter (\<lambda>c. Str c \<in> set ?keep) (sample_labels cols)),
                 rows = rows_of (length (gene_records text))
                          (key_cells convert text 0 # key_cells convert text (Suc 0) # others)\<rparr>"
    by blast
  let ?m = "[(''Name'', ''gene_id''), (''Description'', ''gene_symbol'')]"
  let ?S = "filter (\<lambda>c. Str c \<in> set ?keep) (sample_labels cols)"
  let ?df = "\<lparr>columns = Label ''Name'' # Label ''Description'' # map Label ?S,
              rows = rows_of (length (gene_records text))
                       (key_cells convert text 0 # key_cells convert text (Suc 0) # others)\<rparr>"
  have "set (sample_labels cols) \<inter> set (rev (take 2 cols)) = {}"
    unfolding sample_labels_def by (rule firsts_avoid_seen)
  with tk have nn: "''Name'' \<notin> set ?S" and nd: "''Description'' \<notin> set ?S"
    by auto
  have rn: "map (rename_label ?m) (map Label xs) = map Label xs"
    if "''Name'' \<notin> set xs" and "''Description'' \<notin> set xs" for xs
    using that by (induction xs) (auto simp add: rename_label_def)
  have hd2: "rename_label ?m (Label ''Name'') = Label ''gene_id''"
    "rename_label ?m (Label ''Description'') = Label ''gene_symbol''"
    by (simp_all add: rename_label_def)
  have c': "columns (rename_columns ?m ?df) = Label ''gene_id'' # Label ''gene_symbol'' # map Label ?S"
    using rn [OF nn nd] hd2 by (simp add: rename_columns_def)
  have r': "rows (rename_columns ?m ?df) = rows_of (length (gene_records text))
              (key_cells convert text 0 # key_cells convert text (Suc 0) # others)"
    by (simp add: rename_columns_def)
  have "distinct ?S"
    unfolding sample_labels_def by (intro distinct_filter firsts_distinct)
  then have "distinct (Label ''gene_id'' # Label ''gene_symbol'' # map Label ?S)"
    using fr by (auto simp add: distinct_map inj_on_def)
  then have di: "distinct (columns (rename_columns ?m ?df))"
    unfolding c' .
  let ?r = "\<lparr>messages =
              [Liver_samples (length liver_ids),
               Requested_found (length liver_ids) (length ?keep),
               Parquet_saved parquet_out],
            out_file = parquet_out,
            table = rename_columns ?m ?df,
            params = [(''gct_file'', gct_name), (''meta_file'', meta_name)],
            metrics = [(''liver_samples'', length liver_ids),
                       (''genes'', length (rows (rename_columns ?m ?df)))],
            artifact = parquet_out\<rparr>"
  have run: "etl gunzip decode convert fs = Inr ?r"
    unfolding etl_def discover_col_names_def Let_def using lv rd cn lm di
    by (simp only: then_do_Inr if_not_P not_not if_True if_False)
  have tb: "table ?r = rename_columns ?m ?df"
    by (simp only: etl_run.simps)
  show ?thesis
  proof (intro exI conjI)
    show "etl gunzip decode convert fs = Inr ?r"
      by (rule run)
    show "columns (table ?r) = Label ''gene_id'' # Label ''gene_symbol'' # map Label ?S"
      unfolding tb by (rule c')
    show "rows (table ?r) = rows_of (length (gene_records text))
            (key_cells convert text 0 # key_cells convert text (Suc 0) # others)"
      unfolding tb by (rule r')
  qed
qed


section \<open>The Fetcher\<close>

text \<open>
  Claim C1 (pipeline linkage). The claim says that after a successful run of the
  Fetcher the two files the Transformer opens exist, because the names the Fetcher
  saves under are the names the Transformer reads. The code does not do that: the
  local names in \<open>FILES\<close> are \<^verbatim>\<open>GTEx_gene_reads.gct.gz\<close> and \<^verbatim>\<open>GTEx_sample_attrs.txt\<close>,
  while the Transformer opens the files under the names of the remote URLs. On an
  empty raw-data directory with every transfer succeeding, the Fetcher returns
  normally, neither input path of the Transformer exists afterwards, and the
  Transformer raises \<^verbatim>\<open>FileNotFoundError\<close>.
\<close>

theorem fetcher_names_differ_from_transformer_inputs:
  "fst (download_main all_complete fresh_world) = Inr ()
   \<and> files (snd (download_main all_complete fresh_world)) gct_path = None
   \<and> files (snd (download_main all_complete fresh_world)) meta_path = None
   \<and> files (snd (download_main all_complete fresh_world)) (path_join RAW ''GTEx_gene_reads.gct.gz'')
       = Some ''payload''
   \<and> files (snd (download_main all_complete fresh_world)) (path_join RAW ''GTEx_sample_attrs.txt'')
       = Some ''payload''
   \<and> etl gunzip decode convert (files (snd (download_main all_complete fresh_world)))
       = Inl FileNotFoundError"
proof -
  have run: "download_main all_complete fresh_world =
      (Inr (),
       \<lparr>files = [path_join RAW ''GTEx_gene_reads.gct.gz'' \<mapsto> ''payload'',
                 path_join RAW ''GTEx_sample_attrs.txt'' \<mapsto> ''payload''],
        printed = [Downloading ''gct'', Saved (path_join RAW ''GTEx_gene_reads.gct.gz''),
                   Downloading ''samp'', Saved (path_join RAW ''GTEx_sample_attrs.txt'')],
        transfers = 2\<rparr>)"
    by (simp add: download_main_def FILES_def fetch_def urlretrieve_def all_complete_def
        fresh_world_def path_join_def RAW_def Let_def)
  have gone: "[path_join RAW ''GTEx_gene_reads.gct.gz'' \<mapsto> ''payload'',
               path_join RAW ''GTEx_sample_attrs.txt'' \<mapsto> ''payload''] meta_path = None"
    by (simp add: meta_path_def meta_name_def path_join_def RAW_def)
  have gone': "[path_join RAW ''GTEx_gene_reads.gct.gz'' \<mapsto> ''payload'',
               path_join RAW ''GTEx_sample_attrs.txt'' \<mapsto> ''payload''] gct_path = None"
    by (simp add: gct_path_def gct_name_def path_join_def RAW_def)
  have fails: "etl gunzip decode convert fs = Inl FileNotFoundError" if "fs meta_path = None" for fs
    using that by (simp add: etl_def load_liver_ids_def read_csv_file_def)
  have raised: "etl gunzip decode convert [path_join RAW ''GTEx_gene_reads.gct.gz'' \<mapsto> ''payload'',
                            path_join RAW ''GTEx_sample_attrs.txt'' \<mapsto> ''payload'']
                 = Inl FileNotFoundError"
    using gone by (rule fails)
  show ?thesis
    unfolding run using gone gone' raised
    by (simp add: path_join_def RAW_def)
qed

text \<open>
  Claim C6 (fetch skips on existence alone). If the destination file exists, whatever
  its content, \<^verbatim>\<open>fetch\<close> returns the destination path, prints the skip line and changes
  nothing else: the files are the same and no transfer was made. Two calls in a row
  make at most one transfer, whatever the state before the first call and whatever
  the remote side answers (an exception of the first call ends the sequence).
\<close>

theorem fetch_skips_existing_file:
  "(files w (path_join RAW fname) = Some content \<longrightarrow>
      fetch net tag fname url w =
        (Inr (path_join RAW fname), w\<lparr>printed := printed w @ [Exists_skip fname]\<rparr>)
      \<and> files (snd (fetch net tag fname url w)) = files w
      \<and> transfers (snd (fetch net tag fname url w)) = transfers w)
   \<and> transfers (snd (fetch_twice net tag fname url w)) \<le> Suc (transfers w)"
proof -
  have one: "transfers (snd (fetch net tag fname url v)) \<le> Suc (transfers v)" for v
    by (simp add: fetch_def urlretrieve_def Let_def split: response.splits)
  have skip: "files v (path_join RAW fname) \<noteq> None \<Longrightarrow>
      transfers (snd (fetch net tag fname url v)) = transfers v" for v
    by (simp add: fetch_def Let_def)
  have kept: "fetch net tag fname url w = (Inr d, v) \<Longrightarrow> files v (path_join RAW fname) \<noteq> None"
    for d v
    by (auto simp add: fetch_def urlretrieve_def Let_def split: response.splits if_splits)
  have twice: "transfers (snd (fetch_twice net tag fname url w)) \<le> Suc (transfers w)"
  proof (cases "fetch net tag fname url w")
    case (Pair res v)
    show ?thesis
    proof (cases res)
      case (Inl e)
      with Pair one [of w] show ?thesis by (simp add: fetch_twice_def)
    next
      case (Inr d)
      with Pair have "files v (path_join RAW fname) \<noteq> None" using kept by simp
      then have "transfers (snd (fetch net tag fname url v)) = transfers v" by (rule skip)
      with Pair Inr one [of w] show ?thesis by (simp add: fetch_twice_def)
    qed
  qed
  have first: "files w (path_join RAW fname) = Some content \<longrightarrow>
      fetch net tag fname url w =
        (Inr (path_join RAW fname), w\<lparr>printed := printed w @ [Exists_skip fname]\<rparr>)
      \<and> files (snd (fetch net tag fname url w)) = files w
      \<and> transfers (snd (fetch net tag fname url w)) = transfers w"
    by (simp add: fetch_def Let_def)
  from first twice show ?thesis by blast
qed

text \<open>
  A destination that holds a truncated file: the call skips it although the remote
  side would deliver the whole content.
\<close>

theorem fetch_skips_existing_file_witness:
  "fetch (\<lambda>u. Complete ''whole content'') ''gct'' ''f.gz'' ''http://host/f.gz''
       \<lparr>files = [''data_raw/f.gz'' \<mapsto> ''trunc''], printed = [], transfers = 0\<rparr>
     = (Inr ''data_raw/f.gz'',
        \<lparr>files = [''data_raw/f.gz'' \<mapsto> ''trunc''], printed = [Exists_skip ''f.gz''],
         transfers = 0\<rparr>)"
  using fetch_skips_existing_file
    [of "\<lparr>files = [''data_raw/f.gz'' \<mapsto> ''trunc''], printed = [], transfers = 0\<rparr>"
      "''f.gz''" "''trunc''" "\<lambda>u. Complete ''whole content''" "''gct''" "''http://host/f.gz''"]
  by (simp add: path_join_def RAW_def)

section \<open>The Transformer\<close>

text \<open>
  Claim C5 (gzip detection by content). For a file that exists, \<^verbatim>\<open>smart_open\<close> returns
  the gzip-decoding handle exactly when the content starts with the bytes 0x1F 0x8B,
  and the plain handle exactly when it does not; the name of the file plays no part.
  Hence a gzip file and its decompressed counterpart, under any two names, read as
  the same text: what the text layer makes of the decompressed bytes. The
  counterpart is a plain-text file: it does not itself start with the gzip magic
  bytes.
\<close>

theorem smart_open_detects_gzip_by_content:
  assumes "fs p = Some b"
  shows "(smart_open fs p = Inr (GzipText b) \<longleftrightarrow> (\<exists>rest. b = CHR 0x1F # CHR 0x8B # rest))
   \<and> (smart_open fs p = Inr (PlainText b) \<longleftrightarrow> \<not> (\<exists>rest. b = CHR 0x1F # CHR 0x8B # rest))
   \<and> (\<forall>q t. fs q = Some t \<and> (\<exists>rest. b = CHR 0x1F # CHR 0x8B # rest) \<and> gunzip b = Some t
              \<and> \<not> (\<exists>rest. t = CHR 0x1F # CHR 0x8B # rest)
          \<longrightarrow> open_and_read gunzip decode fs p = text_layer decode t
              \<and> open_and_read gunzip decode fs q = text_layer decode t)"
proof -
  have m: "take 2 c = gzip_magic \<longleftrightarrow> (\<exists>rest. c = CHR 0x1F # CHR 0x8B # rest)" for c
  proof (cases c)
    case Nil
    then show ?thesis by (simp add: gzip_magic_def)
  next
    case (Cons x xs)
    then show ?thesis by (cases xs) (auto simp add: gzip_magic_def)
  qed
  have gz: "smart_open fs p = Inr (GzipText b) \<longleftrightarrow> (\<exists>rest. b = CHR 0x1F # CHR 0x8B # rest)"
    using assms m [of b] by (simp add: smart_open_def Let_def)
  have pl: "smart_open fs p = Inr (PlainText b) \<longleftrightarrow> \<not> (\<exists>rest. b = CHR 0x1F # CHR 0x8B # rest)"
    using assms m [of b] by (simp add: smart_open_def Let_def)
  have same: "open_and_read gunzip decode fs p = text_layer decode t
              \<and> open_and_read gunzip decode fs q = text_layer decode t"
    if q: "fs q = Some t" and bm: "\<exists>rest. b = CHR 0x1F # CHR 0x8B # rest"
      and un: "gunzip b = Some t" and tm: "\<not> (\<exists>rest. t = CHR 0x1F # CHR 0x8B # rest)" for q t
  proof -
    from bm gz have "smart_open fs p = Inr (GzipText b)" by simp
    with un have rp: "open_and_read gunzip decode fs p = text_layer decode t"
      by (simp add: open_and_read_def read_text_def)
    from tm m [of t] q have "smart_open fs q = Inr (PlainText t)"
      by (simp add: smart_open_def Let_def)
    then have "open_and_read gunzip decode fs q = text_layer decode t"
      by (simp add: open_and_read_def read_text_def)
    with rp show ?thesis by simp
  qed
  from gz pl same show ?thesis by blast
qed

text \<open>
  A gzip file named with a \<^verbatim>\<open>.txt\<close> suffix and a plain file named with a \<^verbatim>\<open>.gz\<close> suffix
  both read as the text \<^verbatim>\<open>ab\<close>.
\<close>

theorem smart_open_detects_gzip_by_content_witness:
  "open_and_read unwrap_example bytes_example
       [''m.txt'' \<mapsto> [CHR 0x1F, CHR 0x8B, CHR ''a'', CHR ''b''], ''m.gz'' \<mapsto> ''ab''] ''m.txt''
     = Inr ''ab''
   \<and> open_and_read unwrap_example bytes_example
       [''m.txt'' \<mapsto> [CHR 0x1F, CHR 0x8B, CHR ''a'', CHR ''b''], ''m.gz'' \<mapsto> ''ab''] ''m.gz''
     = Inr ''ab''"
proof -
  let ?fs = "[''m.txt'' \<mapsto> [CHR 0x1F, CHR 0x8B, CHR ''a'', CHR ''b''], ''m.gz'' \<mapsto> ''ab'']"
  have h: "?fs ''m.txt'' = Some [CHR 0x1F, CHR 0x8B, CHR ''a'', CHR ''b'']" by simp
  have "\<forall>q t. ?fs q = Some t
            \<and> (\<exists>rest. [CHR 0x1F, CHR 0x8B, CHR ''a'', CHR ''b''] = CHR 0x1F # CHR 0x8B # rest)
            \<and> unwrap_example [CHR 0x1F, CHR 0x8B, CHR ''a'', CHR ''b''] = Some t
            \<and> \<not> (\<exists>rest. t = CHR 0x1F # CHR 0x8B # rest)
          \<longrightarrow> open_and_read unwrap_example bytes_example ?fs ''m.txt'' = text_layer bytes_example t
              \<and> open_and_read unwrap_example bytes_example ?fs q = text_layer bytes_example t"
    using h smart_open_detects_gzip_by_content
      [of ?fs "''m.txt''" "[CHR 0x1F, CHR 0x8B, CHR ''a'', CHR ''b'']" unwrap_example bytes_example]
    by blast
  then have "?fs ''m.gz'' = Some ''ab''
            \<and> (\<exists>rest. [CHR 0x1F, CHR 0x8B, CHR ''a'', CHR ''b''] = CHR 0x1F # CHR 0x8B # rest)
            \<and> unwrap_example [CHR 0x1F, CHR 0x8B, CHR ''a'', CHR ''b''] = Some ''ab''
            \<and> \<not> (\<exists>rest. ''ab'' = CHR 0x1F # CHR 0x8B # rest)
          \<longrightarrow> open_and_read unwrap_example bytes_example ?fs ''m.txt'' = text_layer bytes_example ''ab''
              \<and> open_and_read unwrap_example bytes_example ?fs ''m.gz'' = text_layer bytes_example ''ab''"
    by blast
  then show ?thesis
    by (simp add: unwrap_example_def gzip_magic_def text_layer_def bytes_example_def
        carriage_return_def)
qed

text \<open>
  Claim C3 (effective filter set). For every candidate list and every sample
  universe, \<^verbatim>\<open>keep_ids\<close> is the candidate list restricted to the identifiers that are in
  the universe: it is a subsequence of the candidate list (so the order is the
  candidate list's), its elements are exactly the candidates in the universe, and it
  is no longer than the candidate list.
\<close>

theorem keep_ids_is_ordered_intersection:
  "keep_ids liver_ids gct_samples = filter (\<lambda>sid. sid \<in> gct_samples) liver_ids
   \<and> subseq (keep_ids liver_ids gct_samples) liver_ids
   \<and> set (keep_ids liver_ids gct_samples) = set liver_ids \<inter> gct_samples
   \<and> length (keep_ids liver_ids gct_samples) \<le> length liver_ids"
proof -
  have eq: "keep_ids liver_ids gct_samples = filter (\<lambda>sid. sid \<in> gct_samples) liver_ids"
    by (rule keep_ids_filter)
  have sub: "subseq (filter (\<lambda>sid. sid \<in> gct_samples) liver_ids) liver_ids"
    by simp
  have st: "set (filter (\<lambda>sid. sid \<in> gct_samples) liver_ids) = set liver_ids \<inter> gct_samples"
    by auto
  have len: "length (filter (\<lambda>sid. sid \<in> gct_samples) liver_ids) \<le> length liver_ids"
    by simp
  from eq sub st len show ?thesis by simp
qed
















end
